theory Spec2Isabelle
  imports Main "HOL-Library.Sublist"
begin

section \<open>POSIX path functions of the platform library\<close>

text \<open>
  The driver builds every backend path with \<^verbatim>\<open>path.posix.normalize\<close>,
  \<^verbatim>\<open>path.posix.join\<close> and \<^verbatim>\<open>path.dirname\<close>. These belong to the Node.js
  standard library, which is not among the repository's files, so they are written here
  after the library's documented behaviour: a path is cut at every \<open>/\<close>; empty segments
  and \<open>.\<close> are dropped; \<open>..\<close> removes the segment before it, and is kept (relative path)
  or dropped (absolute path) where there is none to remove.
\<close>

fun split_path :: "string \<Rightarrow> string list" where
  "split_path [] = [[]]"
| "split_path (c # cs) =
     (if c = CHR ''/'' then [] # split_path cs
      else (case split_path cs of [] \<Rightarrow> [[c]] | s # ss \<Rightarrow> (c # s) # ss))"

fun join_segs :: "string list \<Rightarrow> string" where
  "join_segs [] = []"
| "join_segs [s] = s"
| "join_segs (s # t # ss) = s @ CHR ''/'' # join_segs (t # ss)"

text \<open>
  Modelled from the spec: \<^verbatim>\<open>normalizeString\<close>, the library's loop behind
  \<^verbatim>\<open>normalize\<close>, is missing from the repository's files (the spec's ``POSIX
  path-normalization rules, collapsing \<open>.\<close>/\<open>..\<close> segments lexically''). It is written
  over the segments of the path; \<open>res\<close> is the stack of segments kept so far, the last
  one first, and \<open>allowAboveRoot\<close> holds for a relative path.
\<close>

fun normalizeString :: "bool \<Rightarrow> string list \<Rightarrow> string list \<Rightarrow> string list" where
  "normalizeString allowAboveRoot res [] = rev res"
| "normalizeString allowAboveRoot res (seg # segs) =
     (if seg = [] \<or> seg = ''.'' then normalizeString allowAboveRoot res segs
      else if seg = ''..'' then
        (case res of
           [] \<Rightarrow>
             if allowAboveRoot then normalizeString allowAboveRoot [''..''] segs
             else normalizeString allowAboveRoot [] segs
         | lastSeg # below \<Rightarrow>
             if lastSeg \<noteq> ''..'' then normalizeString allowAboveRoot below segs
             else if allowAboveRoot then normalizeString allowAboveRoot (''..'' # res) segs
             else normalizeString allowAboveRoot res segs)
      else normalizeString allowAboveRoot (seg # res) segs)"

text \<open>
  Modelled from the spec: \<^verbatim>\<open>path.posix.normalize\<close>, missing from the repository's
  files. The empty path is \<open>.\<close>; a leading slash and a trailing slash of the path are
  kept around the normalized segments.
\<close>

definition posix_normalize :: "string \<Rightarrow> string" where
  "posix_normalize path =
     (if path = [] then ''.''
      else
        let isAbsolute = (hd path = CHR ''/'');
            trailingSeparator = (last path = CHR ''/'');
            body = join_segs (normalizeString (\<not> isAbsolute) [] (split_path path))
        in if body = [] then
             (if isAbsolute then ''/'' else if trailingSeparator then ''./'' else ''.'')
           else (if isAbsolute then ''/'' else []) @ body @
                (if trailingSeparator then ''/'' else []))"

text \<open>
  Modelled from the spec: \<^verbatim>\<open>path.posix.join\<close>, missing from the repository's files
  (``forward-slash-style join semantics, never producing an empty segment''): the
  non-empty arguments are glued with \<open>/\<close> and the result is normalized.
\<close>

definition posix_join :: "string list \<Rightarrow> string" where
  "posix_join args =
     (let joined = filter (\<lambda>arg. arg \<noteq> []) args
      in if joined = [] then ''.'' else posix_normalize (join_segs joined))"

text \<open>
  Modelled from the spec: \<^verbatim>\<open>path.dirname\<close>, missing from the repository's files
  (the spec's ``parent of resolved''), in its POSIX form. Trailing slashes are skipped,
  then the last segment; what stands before the slash found is returned. The first
  character is never examined by the scan.
\<close>

definition dirname :: "string \<Rightarrow> string" where
  "dirname path =
     (case path of
        [] \<Rightarrow> ''.''
      | c # rest \<Rightarrow>
          let hasRoot = (c = CHR ''/'');
              scanned = dropWhile (\<lambda>x. x \<noteq> CHR ''/'')
                          (dropWhile (\<lambda>x. x = CHR ''/'') (rev rest))
          in (case scanned of
                [] \<Rightarrow> if hasRoot then ''/'' else ''.''
              | slash # front \<Rightarrow>
                  if hasRoot \<and> front = [] then ''//'' else c # rev front))"

section \<open>Path resolution\<close>

text \<open>
  The tenant: \<^verbatim>\<open>user.account_id\<close> and \<^verbatim>\<open>user.app_id\<close>.
\<close>

record user =
  account_id :: string
  app_id :: string

text \<open>
  The replacement \<^verbatim>\<open>.replace(/^(\.\.[\/\\])+/, '')\<close>: every leading repetition of
  two dots followed by a slash or a backslash is removed.
\<close>

fun strip_leading_traversal :: "string \<Rightarrow> string" where
  "strip_leading_traversal (a # b # c # rest) =
     (if a = CHR ''.'' \<and> b = CHR ''.'' \<and> (c = CHR ''/'' \<or> c = CHR 0x5C)
      then strip_leading_traversal rest
      else a # b # c # rest)"
| "strip_leading_traversal s = s"

definition toSafeLocalPath :: "string \<Rightarrow> user \<Rightarrow> string \<Rightarrow> string" where
  "toSafeLocalPath basePath user fileName =
     (let safeFilename = strip_leading_traversal (posix_normalize fileName)
      in posix_join [basePath, account_id user, app_id user, safeFilename])"

text \<open>
  The spec's wording of the resolved path, kept apart from the code's: a shard prefix made
  of the first three two-character groups of the account identifier stands between the
  base path and the account identifier (a shorter identifier gives shorter or fewer
  groups, without padding).
\<close>

definition spec_shard_prefix :: "string \<Rightarrow> string list" where
  "spec_shard_prefix account =
     filter (\<lambda>g. g \<noteq> [])
       [take 2 account, take 2 (drop 2 account), take 2 (drop 4 account)]"

definition spec_resolved_path :: "string \<Rightarrow> user \<Rightarrow> string \<Rightarrow> string" where
  "spec_resolved_path basePath user sanitized =
     posix_join ([basePath] @ spec_shard_prefix (account_id user) @
                 [account_id user, app_id user, sanitized])"

section \<open>Entries\<close>

text \<open>
  A backend descriptor (\<^verbatim>\<open>mantaEntry\<close>: \<^verbatim>\<open>name\<close>, \<^verbatim>\<open>type\<close>, \<^verbatim>\<open>size\<close>) and the
  entry handed to the caller (\<^verbatim>\<open>name\<close>, \<^verbatim>\<open>.tag\<close>, \<^verbatim>\<open>size\<close>). A size that the
  object does not carry is \<open>None\<close>.
\<close>

record mantaEntry =
  m_name :: string
  m_type :: string
  m_size :: "nat option"

record entry =
  entry_name :: string
  entry_tag :: string
  entry_size :: "nat option"

definition getEntryDetails :: "mantaEntry \<Rightarrow> entry" where
  "getEntryDetails mantaEntry =
     \<lparr>entry_name = m_name mantaEntry,
      entry_tag = (if m_type mantaEntry = ''object'' then ''file'' else ''folder''),
      entry_size = m_size mantaEntry\<rparr>"

section \<open>The backend client and what an operation leaves behind\<close>

text \<open>
  An error object of the backend with its \<^verbatim>\<open>code\<close>; the value a callback receives
  besides the error (JavaScript's \<^verbatim>\<open>null\<close>, \<^verbatim>\<open>undefined\<close> or a proper value); one
  invocation of the caller's callback: \<^verbatim>\<open>callback(err)\<close> or \<^verbatim>\<open>callback(null, x)\<close>.
\<close>

record error =
  code :: string
  message :: string

datatype 'a js = Null | Undefined | Value 'a

datatype 'a completion = Failure error | Success 'a

text \<open>The result of \<^verbatim>\<open>client.info\<close>, of which the driver reads \<^verbatim>\<open>extension\<close>.\<close>

record info =
  extension :: string

text \<open>The events of the emitter that \<^verbatim>\<open>client.ls\<close> hands over.\<close>

datatype ls_event =
  ObjectEv mantaEntry | DirectoryEv mantaEntry | ErrorEv error | EndEv

text \<open>The calls the driver issues to the client, in the order it issues them.\<close>

datatype call =
  Mkdirp string
| Ls string
| Get string
| CreateWriteStream string
| Ln string string
| Unlink string
| Info string
| CreateUpload string string

text \<open>
  What escapes an operation other than through the callback: reading a property of
  \<^verbatim>\<open>undefined\<close>, or an \<^verbatim>\<open>error\<close> event that no listener takes.
\<close>

datatype exception = TypeError | UnhandledError error

text \<open>
  The client is external. Each of its operations is a function of the backend's state
  \<open>'b\<close> that returns what it passes to its callback, the error first (\<open>None\<close> for
  \<^verbatim>\<open>null\<close>), and the state it leaves. The asynchronous chain of callbacks of one
  operation is run as the sequence it is. The second argument of \<^verbatim>\<open>get\<close> and of
  \<^verbatim>\<open>createUpload\<close> is handed to the caller as it comes, so it is any JavaScript
  value: \<^verbatim>\<open>null\<close>, \<^verbatim>\<open>undefined\<close> or a proper one. The driver reads a property
  of the second argument of \<^verbatim>\<open>ls\<close> and of \<^verbatim>\<open>info\<close>, which raises on
  \<^verbatim>\<open>null\<close> and on \<^verbatim>\<open>undefined\<close> alike: \<open>None\<close> stands for both there.
\<close>

record ('b, 'r, 'w) client =
  mkdirp :: "string \<Rightarrow> 'b \<Rightarrow> error option \<times> 'b"
  ls :: "string \<Rightarrow> 'b \<Rightarrow> (error option \<times> ls_event list option) \<times> 'b"
  get :: "string \<Rightarrow> 'b \<Rightarrow> (error option \<times> 'r js) \<times> 'b"
  createWriteStream :: "string \<Rightarrow> 'b \<Rightarrow> 'w \<times> 'b"
  ln :: "string \<Rightarrow> string \<Rightarrow> 'b \<Rightarrow> error option \<times> 'b"
  unlink :: "string \<Rightarrow> 'b \<Rightarrow> error option \<times> 'b"
  info :: "string \<Rightarrow> 'b \<Rightarrow> (error option \<times> info option) \<times> 'b"
  createUpload :: "string \<Rightarrow> string \<Rightarrow> 'b \<Rightarrow> (error option \<times> string js) \<times> 'b"

text \<open>The construction parameters the operations read.\<close>

record params =
  basePath :: string
  params_user :: string

record ('a, 'b) outcome =
  callbacks :: "'a completion list"
  calls :: "call list"
  backend :: 'b
  thrown :: "exception option"

section \<open>The driver's operations\<close>

definition createDirectory ::
  "('b, 'r, 'w) client \<Rightarrow> params \<Rightarrow> user \<Rightarrow> string \<Rightarrow> 'b \<Rightarrow> (entry, 'b) outcome" where
  "createDirectory client params user dirPath b =
     (let fullPath = toSafeLocalPath (basePath params) user dirPath;
          (err, b1) = mkdirp client fullPath b
      in \<lparr>callbacks =
            (case err of
               Some e \<Rightarrow> [Failure e]
             | None \<Rightarrow>
                 [Success (getEntryDetails
                    \<lparr>m_name = dirPath, m_type = ''directory'', m_size = None\<rparr>)]),
          calls = [Mkdirp fullPath], backend = b1, thrown = None\<rparr>)"

text \<open>
  The listeners of \<^verbatim>\<open>listDirectory\<close> on the emitter: \<^verbatim>\<open>object\<close> and
  \<^verbatim>\<open>directory\<close> push an entry; the first \<^verbatim>\<open>error\<close> and the first \<^verbatim>\<open>end\<close> call
  back (\<^verbatim>\<open>once\<close>). A later \<^verbatim>\<open>end\<close> finds no listener; a later \<^verbatim>\<open>error\<close> finds
  none either, which the emitter raises.
\<close>

fun consume ::
  "entry list \<Rightarrow> bool \<Rightarrow> bool \<Rightarrow> ls_event list \<Rightarrow>
     entry list completion list \<times> exception option" where
  "consume entries errorSeen endSeen [] = ([], None)"
| "consume entries errorSeen endSeen (ObjectEv obj # evs) =
     consume (entries @ [getEntryDetails obj]) errorSeen endSeen evs"
| "consume entries errorSeen endSeen (DirectoryEv dir # evs) =
     consume (entries @ [getEntryDetails dir]) errorSeen endSeen evs"
| "consume entries errorSeen endSeen (ErrorEv err # evs) =
     (if errorSeen then ([], Some (UnhandledError err))
      else (let (later, t) = consume entries True endSeen evs
            in (Failure err # later, t)))"
| "consume entries errorSeen endSeen (EndEv # evs) =
     (if endSeen then consume entries errorSeen endSeen evs
      else (let (later, t) = consume entries errorSeen True evs
            in (Success entries # later, t)))"

text \<open>
  After the error branch the function goes on to \<^verbatim>\<open>res.on\<close>: there is no
  \<^verbatim>\<open>return\<close>. Where the client passed no emitter this read of \<^verbatim>\<open>undefined\<close>
  raises.
\<close>

definition listDirectory ::
  "('b, 'r, 'w) client \<Rightarrow> params \<Rightarrow> user \<Rightarrow> string \<Rightarrow> 'b \<Rightarrow> (entry list, 'b) outcome" where
  "listDirectory client params user dirpath b =
     (let fullPath = toSafeLocalPath (basePath params) user dirpath;
          ((err, res), b1) = ls client fullPath b;
          first =
            (case err of
               None \<Rightarrow> []
             | Some e \<Rightarrow>
                 if code e = ''NOTFOUND'' \<or> dirpath = [] then [Success []]
                 else [Failure e])
      in (case res of
            None \<Rightarrow>
              \<lparr>callbacks = first, calls = [Ls fullPath], backend = b1,
               thrown = Some TypeError\<rparr>
          | Some events \<Rightarrow>
              (let (later, t) = consume [] False False events
               in \<lparr>callbacks = first @ later, calls = [Ls fullPath], backend = b1,
                   thrown = t\<rparr>)))"

text \<open>
  \<^verbatim>\<open>getObject\<close>: the error branch has no \<^verbatim>\<open>return\<close> either, so
  \<^verbatim>\<open>callback(null, stream)\<close> follows in every case.
\<close>

definition getObject ::
  "('b, 'r, 'w) client \<Rightarrow> params \<Rightarrow> user \<Rightarrow> string \<Rightarrow> 'b \<Rightarrow> ('r js, 'b) outcome" where
  "getObject client params user filename b =
     (let filePath = toSafeLocalPath (basePath params) user filename;
          ((err, stream), b1) = get client filePath b;
          first =
            (case err of
               None \<Rightarrow> []
             | Some e \<Rightarrow>
                 if code e = ''ResourceNotFound'' then [Success Null]
                 else [Failure e])
      in \<lparr>callbacks = first @ [Success stream],
          calls = [Get filePath], backend = b1, thrown = None\<rparr>)"

definition putObject ::
  "('b, 'r, 'w) client \<Rightarrow> params \<Rightarrow> user \<Rightarrow> string \<Rightarrow> 'b \<Rightarrow> ('w, 'b) outcome" where
  "putObject client params user filename b =
     (let filePath = toSafeLocalPath (basePath params) user filename;
          (err, b1) = mkdirp client (dirname filePath) b
      in (case err of
            Some e \<Rightarrow>
              \<lparr>callbacks = [Failure e], calls = [Mkdirp (dirname filePath)],
               backend = b1, thrown = None\<rparr>
          | None \<Rightarrow>
              (let (sink, b2) = createWriteStream client filePath b1
               in \<lparr>callbacks = [Success sink],
                   calls = [Mkdirp (dirname filePath), CreateWriteStream filePath],
                   backend = b2, thrown = None\<rparr>)))"

definition copyObject ::
  "('b, 'r, 'w) client \<Rightarrow> params \<Rightarrow> user \<Rightarrow> string \<Rightarrow> string \<Rightarrow> 'b \<Rightarrow> (entry, 'b) outcome" where
  "copyObject client params user filename newFilename b =
     (let filePath = toSafeLocalPath (basePath params) user filename;
          newFilePath = toSafeLocalPath (basePath params) user newFilename;
          (err, b1) = mkdirp client (dirname newFilePath) b
      in (case err of
            Some e \<Rightarrow>
              \<lparr>callbacks = [Failure e], calls = [Mkdirp (dirname newFilePath)],
               backend = b1, thrown = None\<rparr>
          | None \<Rightarrow>
              (let (err2, b2) = ln client filePath newFilePath b1
               in \<lparr>callbacks =
                     (case err2 of
                        Some e \<Rightarrow> [Failure e]
                      | None \<Rightarrow>
                          [Success (getEntryDetails
                             \<lparr>m_name = newFilename, m_type = ''object'', m_size = None\<rparr>)]),
                   calls = [Mkdirp (dirname newFilePath), Ln filePath newFilePath],
                   backend = b2, thrown = None\<rparr>)))"

definition moveObject ::
  "('b, 'r, 'w) client \<Rightarrow> params \<Rightarrow> user \<Rightarrow> string \<Rightarrow> string \<Rightarrow> 'b \<Rightarrow> (entry, 'b) outcome" where
  "moveObject client params user filename newFilename b =
     (let filePath = toSafeLocalPath (basePath params) user filename;
          newFilePath = toSafeLocalPath (basePath params) user newFilename;
          (err, b1) = mkdirp client (dirname newFilePath) b
      in (case err of
            Some e \<Rightarrow>
              \<lparr>callbacks = [Failure e], calls = [Mkdirp (dirname newFilePath)],
               backend = b1, thrown = None\<rparr>
          | None \<Rightarrow>
              (let (err2, b2) = ln client filePath newFilePath b1
               in (case err2 of
                     Some e \<Rightarrow>
                       \<lparr>callbacks = [Failure e],
                        calls = [Mkdirp (dirname newFilePath), Ln filePath newFilePath],
                        backend = b2, thrown = None\<rparr>
                   | None \<Rightarrow>
                       (let (err3, b3) = unlink client filePath b2
                        in \<lparr>callbacks =
                              (case err3 of
                                 Some e \<Rightarrow> [Failure e]
                               | None \<Rightarrow>
                                   [Success (getEntryDetails
                                      \<lparr>m_name = newFilename, m_type = ''object'',
                                       m_size = None\<rparr>)]),
                            calls = [Mkdirp (dirname newFilePath), Ln filePath newFilePath,
                                     Unlink filePath],
                            backend = b3, thrown = None\<rparr>)))))"

text \<open>
  \<^verbatim>\<open>deleteObject\<close>: where \<^verbatim>\<open>client.info\<close> reports no error and passes no
  \<^verbatim>\<open>info\<close>, reading \<^verbatim>\<open>info.extension\<close> raises before anything else is done.
\<close>

definition deleteObject ::
  "('b, 'r, 'w) client \<Rightarrow> params \<Rightarrow> user \<Rightarrow> string \<Rightarrow> 'b \<Rightarrow> (entry, 'b) outcome" where
  "deleteObject client params user filename b =
     (let filePath = toSafeLocalPath (basePath params) user filename;
          ((err, details), b1) = info client filePath b
      in (case err of
            Some e \<Rightarrow>
              \<lparr>callbacks = [Failure e], calls = [Info filePath], backend = b1,
               thrown = None\<rparr>
          | None \<Rightarrow>
              (case details of
                 None \<Rightarrow>
                   \<lparr>callbacks = [], calls = [Info filePath], backend = b1,
                    thrown = Some TypeError\<rparr>
               | Some i \<Rightarrow>
                   (let entry =
                          \<lparr>m_name = filename,
                           m_type = (if extension i = ''directory'' then ''directory''
                                     else ''object''),
                           m_size = None\<rparr>;
                        (err2, b2) = unlink client filePath b1
                    in \<lparr>callbacks =
                          (case err2 of
                             Some e \<Rightarrow> [Failure e]
                           | None \<Rightarrow> [Success (getEntryDetails entry)]),
                        calls = [Info filePath, Unlink filePath],
                        backend = b2, thrown = None\<rparr>))))"

definition startMultipartUpload ::
  "('b, 'r, 'w) client \<Rightarrow> params \<Rightarrow> user \<Rightarrow> 'b \<Rightarrow> (string js, 'b) outcome" where
  "startMultipartUpload client params user b =
     (let tmpPath = posix_join [basePath params, ''temp0000''];
          ((err, uploadId), b1) = createUpload client tmpPath (params_user params) b
      in \<lparr>callbacks =
            (case err of
               Some e \<Rightarrow> [Failure e]
             | None \<Rightarrow> [Success uploadId]),
          calls = [CreateUpload tmpPath (params_user params)],
          backend = b1, thrown = None\<rparr>)"

section \<open>An in-memory client for concrete runs\<close>

text \<open>
  A stand-in for the remote client, used to run the operations on concrete inputs. Its
  state is the list of paths that exist (a path that ends in a slash is a directory);
  \<open>faults\<close> names the calls that fail and the error each fails with. A call without a
  fault on a missing object fails with \<open>not_found\<close>. A read that fails by a fault
  calls back as \<^verbatim>\<open>cb(err, null)\<close>, a read of a missing object as \<^verbatim>\<open>cb(err)\<close>.
  A multipart upload is staged by adding its path to the state.
\<close>

definition not_found :: error where
  "not_found = \<lparr>code = ''ResourceNotFound'', message = ''no such object''\<rparr>"

definition mem_client :: "(call \<times> error) list \<Rightarrow> (string list, string, string) client" where
  "mem_client faults =
     \<lparr>mkdirp = (\<lambda>p s. (map_of faults (Mkdirp p), s)),
      ls = (\<lambda>p s.
        (case map_of faults (Ls p) of
           Some e \<Rightarrow> ((Some e, None), s)
         | None \<Rightarrow>
             ((None,
               Some (map (\<lambda>x. ObjectEv \<lparr>m_name = x, m_type = ''object'', m_size = None\<rparr>)
                       (filter (\<lambda>x. dirname x = p) s) @ [EndEv])), s))),
      get = (\<lambda>p s.
        (case map_of faults (Get p) of
           Some e \<Rightarrow> ((Some e, Null), s)
         | None \<Rightarrow>
             if p \<in> set s then ((None, Value p), s)
             else ((Some not_found, Undefined), s))),
      createWriteStream = (\<lambda>p s. (p, p # s)),
      ln = (\<lambda>src dst s.
        (case map_of faults (Ln src dst) of
           Some e \<Rightarrow> (Some e, s)
         | None \<Rightarrow> if src \<in> set s then (None, dst # s) else (Some not_found, s))),
      unlink = (\<lambda>p s.
        (case map_of faults (Unlink p) of
           Some e \<Rightarrow> (Some e, s)
         | None \<Rightarrow> if p \<in> set s then (None, removeAll p s) else (Some not_found, s))),
      info = (\<lambda>p s.
        (case map_of faults (Info p) of
           Some e \<Rightarrow> ((Some e, None), s)
         | None \<Rightarrow>
             if p \<in> set s then
               ((None,
                 Some \<lparr>extension =
                         (if p \<noteq> [] \<and> last p = CHR ''/'' then ''directory''
                          else ''bin'')\<rparr>), s)
             else ((Some not_found, None), s))),
      createUpload = (\<lambda>p account s.
        (case map_of faults (CreateUpload p account) of
           Some e \<Rightarrow> ((Some e, Undefined), s)
         | None \<Rightarrow> ((None, Value ''upload-1''), p # s)))\<rparr>"

text \<open>The tenant and the construction parameters of the spec's end-to-end scenario.\<close>

definition tenantT :: user where
  "tenantT = \<lparr>account_id = ''AB12CD34EF5678'', app_id = ''app1''\<rparr>"

definition params0 :: params where
  "params0 = \<lparr>basePath = ''base'', params_user = ''operator''\<rparr>"

definition denied :: error where
  "denied = \<lparr>code = ''AuthorizationFailed'', message = ''not allowed''\<rparr>"

definition list_missing :: error where
  "list_missing = \<lparr>code = ''NOTFOUND'', message = ''no such directory''\<rparr>"

section \<open>Segments of a path\<close>

text \<open>
  The segments normalization keeps when there is no \<open>..\<close> among them, and a segment
  that is a plain name.
\<close>

definition clean_segs :: "string list \<Rightarrow> string list" where
  "clean_segs segs = filter (\<lambda>s. s \<noteq> [] \<and> s \<noteq> ''.'') segs"

definition plain_segment :: "string \<Rightarrow> bool" where
  "plain_segment s = (s \<noteq> [] \<and> s \<noteq> ''.'' \<and> s \<noteq> ''..'' \<and> CHR ''/'' \<notin> set s)"

section \<open>Facts about the path functions\<close>

lemma split_path_not_Nil: "split_path p \<noteq> []"
  by (induction p) (auto split: list.splits)

lemma split_path_append:
  "split_path (x @ CHR ''/'' # y) = split_path x @ split_path y"
proof (induction x)
  case Nil
  show ?case by simp
next
  case (Cons c x)
  obtain s ss where sp: "split_path x = s # ss"
    using split_path_not_Nil [of x] by (cases "split_path x") auto
  show ?case using Cons sp by simp
qed

lemma split_path_no_slash: "CHR ''/'' \<notin> set s \<Longrightarrow> split_path s = [s]"
  by (induction s) auto

lemma normalizeString_no_dotdot:
  "''..'' \<notin> set segs \<Longrightarrow> normalizeString allow res segs = rev res @ clean_segs segs"
  by (induction segs arbitrary: res) (auto simp: clean_segs_def)

lemma join_segs_not_Nil: "xs \<noteq> [] \<Longrightarrow> [] \<notin> set xs \<Longrightarrow> join_segs xs \<noteq> []"
  by (induction xs rule: join_segs.induct) auto

lemma clean_segs_no_empty: "[] \<notin> set (clean_segs xs)"
  by (simp add: clean_segs_def)

lemma posix_normalize_no_dotdot:
  assumes "path \<noteq> []" and "''..'' \<notin> set (split_path path)"
    and "clean_segs (split_path path) \<noteq> []"
  shows "posix_normalize path =
           (if hd path = CHR ''/'' then ''/'' else []) @
           join_segs (clean_segs (split_path path)) @
           (if last path = CHR ''/'' then ''/'' else [])"
proof -
  have body: "join_segs (clean_segs (split_path path)) \<noteq> []"
    using assms(3) clean_segs_no_empty by (rule join_segs_not_Nil)
  show ?thesis
    using assms(1) body
    by (simp add: posix_normalize_def Let_def normalizeString_no_dotdot [OF assms(2)])
qed

lemma plain_split: "plain_segment s \<Longrightarrow> split_path s = [s]"
  by (simp add: plain_segment_def split_path_no_slash)

lemma plain_hd: "plain_segment s \<Longrightarrow> hd s \<noteq> CHR ''/''"
  by (cases s) (auto simp: plain_segment_def)

lemma plain_last: "plain_segment s \<Longrightarrow> last s \<noteq> CHR ''/''"
  by (cases s rule: rev_cases) (auto simp: plain_segment_def)

lemma clean_segs_split_Nil: "clean_segs (split_path []) = []"
  by (simp add: clean_segs_def)


text \<open>The paths of the scenario's tenant, resolved.\<close>

lemma tenantT_resolved:
  "toSafeLocalPath (basePath params0) tenantT [] = ''base/AB12CD34EF5678/app1''"
  "toSafeLocalPath (basePath params0) tenantT ''a.txt'' = ''base/AB12CD34EF5678/app1/a.txt''"
  "toSafeLocalPath (basePath params0) tenantT ''d/b.txt'' = ''base/AB12CD34EF5678/app1/d/b.txt''"
  "toSafeLocalPath (basePath params0) tenantT ''notes'' = ''base/AB12CD34EF5678/app1/notes''"
  "toSafeLocalPath (basePath params0) tenantT ''notes/'' = ''base/AB12CD34EF5678/app1/notes/''"
  by (simp_all add: toSafeLocalPath_def posix_join_def posix_normalize_def params0_def
        tenantT_def)

lemma dirname_destination:
  "dirname ''base/AB12CD34EF5678/app1/d/b.txt'' = ''base/AB12CD34EF5678/app1/d''"
  by (simp add: dirname_def)

section \<open>Path resolution: traversal and shape\<close>

text \<open>
  C1. The resolved path is required to stay below \<open>basePath/account_id/app_id/\<close> and to
  hold no \<open>..\<close> segment for every logical path, \<open>..\<close> and \<open>../..\<close> included. The
  replacement in \<open>toSafeLocalPath\<close> removes \<open>..\<close> only where a slash or a backslash
  follows it, so a normalized path that is or ends as a bare \<open>..\<close> keeps it, and the join
  then climbs out of the application's directory: for the logical paths \<open>..\<close>, \<open>../..\<close>
  and \<open>a/../../..\<close> the resolved path is the account's directory \<open>base/AB12CD34EF5678\<close>,
  which does not lie below \<open>base/AB12CD34EF5678/app1\<close>.
\<close>

theorem toSafeLocalPath_bare_dotdot_escapes:
  "toSafeLocalPath ''base'' tenantT ''..'' = ''base/AB12CD34EF5678''
   \<and> toSafeLocalPath ''base'' tenantT ''../..'' = ''base/AB12CD34EF5678''
   \<and> toSafeLocalPath ''base'' tenantT ''a/../../..'' = ''base/AB12CD34EF5678''
   \<and> \<not> prefix ''base/AB12CD34EF5678/app1'' (toSafeLocalPath ''base'' tenantT ''..'')
   \<and> toSafeLocalPath ''base'' tenantT ''../../../etc/passwd''
       = ''base/AB12CD34EF5678/app1/etc/passwd''"
  by (simp add: toSafeLocalPath_def posix_join_def posix_normalize_def tenantT_def)

text \<open>
  C2, as the spec words it: the resolved path carries the shard prefix \<open>AB/12/CD\<close> between
  the base path and the account identifier. The code joins the base path, the account
  identifier, the application identifier and the sanitized path, and nothing else: for
  the spec's own scenario the two paths differ.
\<close>

theorem toSafeLocalPath_has_no_shard_prefix:
  "spec_resolved_path ''base'' tenantT ''notes/todo.txt''
     = ''base/AB/12/CD/AB12CD34EF5678/app1/notes/todo.txt''
   \<and> toSafeLocalPath ''base'' tenantT ''notes/todo.txt''
     = ''base/AB12CD34EF5678/app1/notes/todo.txt''
   \<and> toSafeLocalPath ''base'' tenantT ''notes/todo.txt''
     \<noteq> spec_resolved_path ''base'' tenantT ''notes/todo.txt''"
  by (simp add: toSafeLocalPath_def spec_resolved_path_def spec_shard_prefix_def
        posix_join_def posix_normalize_def tenantT_def)

text \<open>
  C2, amended. Let the account and application identifiers be plain segments, and let
  neither the base path nor the sanitized logical path hold a \<open>..\<close> segment. Then the
  resolved path is, segment by segment, the base path's segments, the account identifier,
  the application identifier and the sanitized path's segments, with no shard prefix in
  between; it starts with a slash exactly when the base path does and ends with one
  exactly when the sanitized path does.
\<close>

theorem toSafeLocalPath_shape:
  assumes a: "plain_segment (account_id user)" and p: "plain_segment (app_id user)"
    and b: "''..'' \<notin> set (split_path base)"
    and s: "''..'' \<notin> set (split_path (strip_leading_traversal (posix_normalize fileName)))"
  shows "toSafeLocalPath base user fileName =
           (if base \<noteq> [] \<and> hd base = CHR ''/'' then ''/'' else []) @
           join_segs (clean_segs (split_path base) @ [account_id user, app_id user] @
                      clean_segs (split_path (strip_leading_traversal (posix_normalize fileName)))) @
           (if strip_leading_traversal (posix_normalize fileName) \<noteq> [] \<and>
               last (strip_leading_traversal (posix_normalize fileName)) = CHR ''/''
            then ''/'' else [])"
proof -
  define sf where "sf = strip_leading_traversal (posix_normalize fileName)"
  define acc where "acc = account_id user"
  define app where "app = app_id user"
  define front where "front = (if base = [] then [] else base @ ''/'')"
  define rear where "rear = (if sf = [] then [] else CHR ''/'' # sf)"
  define whole where "whole = front @ acc @ CHR ''/'' # app @ rear"
  have a': "plain_segment acc" and p': "plain_segment app"
    using a p by (simp_all add: acc_def app_def)
  have acc_ne: "acc \<noteq> []" and app_ne: "app \<noteq> []"
    using a' p' by (auto simp: plain_segment_def)
  have joined: "join_segs (filter (\<lambda>arg. arg \<noteq> []) [base, acc, app, sf]) = whole"
    using acc_ne app_ne by (simp add: whole_def front_def rear_def)
  have whole_ne: "whole \<noteq> []"
    using acc_ne by (simp add: whole_def)
  have sp_rear: "split_path (app @ rear) = app # (if sf = [] then [] else split_path sf)"
    by (simp add: rear_def split_path_append plain_split [OF p'])
  have sp_mid: "split_path (acc @ CHR ''/'' # app @ rear) =
                  acc # app # (if sf = [] then [] else split_path sf)"
    by (simp add: split_path_append plain_split [OF a'] sp_rear)
  have sp: "split_path whole =
              (if base = [] then [] else split_path base) @ acc # app #
              (if sf = [] then [] else split_path sf)"
    using split_path_append [of base "acc @ CHR ''/'' # app @ rear"]
    by (simp add: whole_def front_def sp_mid)
  have nodd: "''..'' \<notin> set (split_path whole)"
    using a' p' b s by (auto simp: sp plain_segment_def sf_def)
  have cl: "clean_segs (split_path whole) =
              clean_segs (split_path base) @ [acc, app] @ clean_segs (split_path sf)"
    using a' p' by (auto simp: sp clean_segs_def plain_segment_def)
  have cl_ne: "clean_segs (split_path whole) \<noteq> []"
    by (simp add: cl)
  have hd_whole: "(hd whole = CHR ''/'') = (base \<noteq> [] \<and> hd base = CHR ''/'')"
    using plain_hd [OF a'] acc_ne by (auto simp: whole_def front_def)
  have last_whole: "(last whole = CHR ''/'') = (sf \<noteq> [] \<and> last sf = CHR ''/'')"
    using plain_last [OF p'] app_ne by (auto simp: whole_def rear_def)
  have "toSafeLocalPath base user fileName = posix_normalize whole"
    using acc_ne joined
    by (simp add: toSafeLocalPath_def posix_join_def Let_def sf_def acc_def app_def)
  also have "\<dots> = (if hd whole = CHR ''/'' then ''/'' else []) @
           join_segs (clean_segs (split_path whole)) @
           (if last whole = CHR ''/'' then ''/'' else [])"
    using whole_ne nodd cl_ne by (rule posix_normalize_no_dotdot)
  finally show ?thesis
    by (simp only: hd_whole last_whole cl sf_def acc_def app_def)
qed

theorem toSafeLocalPath_shape_witness:
  "plain_segment (account_id tenantT) \<and> plain_segment (app_id tenantT)
   \<and> ''..'' \<notin> set (split_path ''base'')
   \<and> ''..'' \<notin> set (split_path (strip_leading_traversal (posix_normalize ''notes/todo.txt'')))
   \<and> toSafeLocalPath ''base'' tenantT ''notes/todo.txt''
       = ''base/AB12CD34EF5678/app1/notes/todo.txt''"
proof -
  have a: "plain_segment (account_id tenantT)" and p: "plain_segment (app_id tenantT)"
    by (simp_all add: plain_segment_def tenantT_def)
  have b: "''..'' \<notin> set (split_path ''base'')"
    by simp
  have n: "strip_leading_traversal (posix_normalize ''notes/todo.txt'') = ''notes/todo.txt''"
    by (simp add: posix_normalize_def)
  have s: "''..'' \<notin> set (split_path (strip_leading_traversal (posix_normalize ''notes/todo.txt'')))"
    by (simp add: n)
  show ?thesis
    using a p b s toSafeLocalPath_shape [OF a p b s]
    by (simp add: n clean_segs_def tenantT_def)
qed

section \<open>Listing a directory\<close>

text \<open>
  C4. An error of the backend's list call that is not a not-found error is required to
  reach the caller, for the tenant root as for any other path. The error branch tests
  \<open>err.code == 'NOTFOUND' || dirpath == ''\<close>, where its comment speaks of a not-found
  error \<^emph>\<open>and\<close> the root directory: on the tenant root an authorization failure is
  answered with the empty listing, while the same failure on \<open>notes\<close> is passed on.
\<close>

theorem listDirectory_root_swallows_other_errors:
  "code denied \<noteq> ''NOTFOUND''
   \<and> callbacks (listDirectory (mem_client [(Ls ''base/AB12CD34EF5678/app1'', denied)])
                  params0 tenantT [] [])
       = [Success []]
   \<and> callbacks (listDirectory (mem_client [(Ls ''base/AB12CD34EF5678/app1/notes'', denied)])
                  params0 tenantT ''notes'' [])
       = [Failure denied]"
  by (simp add: listDirectory_def tenantT_resolved mem_client_def denied_def)

text \<open>
  C5. Listing the tenant root when the backend's list call reports a not-found error is
  required to complete with the empty collection and never to yield an error. The
  error branch does call back with no error and the empty collection, but it does not
  return: the function goes on to \<open>res.on\<close>, and with the error the client has passed
  no emitter, so the operation ends in a \<open>TypeError\<close> raised after the callback.
\<close>

theorem listDirectory_root_not_found_raises:
  "code list_missing = ''NOTFOUND''
   \<and> listDirectory (mem_client [(Ls ''base/AB12CD34EF5678/app1'', list_missing)])
       params0 tenantT [] []
     = \<lparr>callbacks = [Success []], calls = [Ls ''base/AB12CD34EF5678/app1''],
        backend = [], thrown = Some TypeError\<rparr>"
  by (simp add: listDirectory_def tenantT_resolved mem_client_def list_missing_def)

section \<open>Reading an object\<close>



text \<open>
  C9, as it is worded: whenever the backend's read reports an error, the second call of
  the callback carries an undefined stream. The second call passes on the stream
  argument of the client, whatever it is: a client that calls back as
  \<open>cb(err, null)\<close> makes the second call \<open>callback(null, null)\<close>.
\<close>

theorem getObject_second_callback_not_undefined:
  "callbacks (getObject (mem_client [(Get ''base/AB12CD34EF5678/app1/a.txt'', denied)])
               params0 tenantT ''a.txt'' [''base/AB12CD34EF5678/app1/a.txt''])
     = [Failure denied, Success Null]
   \<and> last (callbacks (getObject
                (mem_client [(Get ''base/AB12CD34EF5678/app1/a.txt'', denied)])
                params0 tenantT ''a.txt'' [''base/AB12CD34EF5678/app1/a.txt'']))
     \<noteq> Success Undefined"
  by (simp add: getObject_def Let_def tenantT_resolved mem_client_def denied_def)

text \<open>
  C9, amended. Whenever the backend's read reports an error, the callback of
  \<open>getObject\<close> is called exactly twice: first with the error (or with \<open>null\<close> and no
  error for \<open>ResourceNotFound\<close>), then again with no error and the stream argument
  just as the client passed it along with its error (\<open>undefined\<close> where it passed
  none, \<open>null\<close> where it passed \<open>null\<close>).
\<close>

theorem getObject_calls_back_twice:
  assumes "get client (toSafeLocalPath (basePath params) user filename) b
             = ((Some e, stream), b1)"
  shows "callbacks (getObject client params user filename b)
           = [if code e = ''ResourceNotFound'' then Success Null else Failure e,
              Success stream]
         \<and> length (callbacks (getObject client params user filename b)) = 2"
  using assms by (simp add: getObject_def)

theorem getObject_calls_back_twice_witness:
  "callbacks (getObject (mem_client [(Get ''base/AB12CD34EF5678/app1/a.txt'', denied)])
               params0 tenantT ''a.txt'' [''base/AB12CD34EF5678/app1/a.txt''])
     = [Failure denied, Success Null]
   \<and> callbacks (getObject (mem_client []) params0 tenantT ''a.txt'' [])
     = [Success Null, Success Undefined]"
proof -
  have g1: "get (mem_client []) (toSafeLocalPath (basePath params0) tenantT ''a.txt'') []
              = ((Some not_found, Undefined), [])"
    by (simp add: tenantT_resolved mem_client_def)
  have g2: "get (mem_client [(Get ''base/AB12CD34EF5678/app1/a.txt'', denied)])
              (toSafeLocalPath (basePath params0) tenantT ''a.txt'')
              [''base/AB12CD34EF5678/app1/a.txt'']
              = ((Some denied, Null), [''base/AB12CD34EF5678/app1/a.txt''])"
    by (simp add: tenantT_resolved mem_client_def)
  show ?thesis
    using getObject_calls_back_twice [OF g1] getObject_calls_back_twice [OF g2]
    by (simp add: not_found_def denied_def)
qed

section \<open>Moving an object\<close>

text \<open>
  C3, as the spec words it: a failure of the unlink after a successful link reaches the
  caller as a failure of its own kind, told apart from a failure before the link. The
  driver hands the backend's error to the callback as it is in both cases: when the
  unlink fails and when the directory creation before the link fails, with the same
  backend error, the caller's callback is given the same, although the destination
  exists in the first run only.
\<close>

theorem moveObject_unlink_failure_not_distinct:
  "callbacks (moveObject (mem_client [(Unlink ''base/AB12CD34EF5678/app1/a.txt'', denied)])
                params0 tenantT ''a.txt'' ''d/b.txt'' [''base/AB12CD34EF5678/app1/a.txt''])
     = callbacks (moveObject (mem_client [(Mkdirp ''base/AB12CD34EF5678/app1/d'', denied)])
                params0 tenantT ''a.txt'' ''d/b.txt'' [''base/AB12CD34EF5678/app1/a.txt''])
   \<and> ''base/AB12CD34EF5678/app1/d/b.txt''
       \<in> set (backend (moveObject
                 (mem_client [(Unlink ''base/AB12CD34EF5678/app1/a.txt'', denied)])
                 params0 tenantT ''a.txt'' ''d/b.txt'' [''base/AB12CD34EF5678/app1/a.txt'']))
   \<and> ''base/AB12CD34EF5678/app1/d/b.txt''
       \<notin> set (backend (moveObject
                 (mem_client [(Mkdirp ''base/AB12CD34EF5678/app1/d'', denied)])
                 params0 tenantT ''a.txt'' ''d/b.txt'' [''base/AB12CD34EF5678/app1/a.txt'']))"
  by (simp add: moveObject_def Let_def tenantT_resolved dirname_destination mem_client_def)

text \<open>
  C3, amended. If the directory creation and the link succeed and the unlink fails,
  \<open>moveObject\<close> issues no further call (the destination is not rolled back: the backend
  is left as the failed unlink left it) and calls back once, with the unlink's error as
  the backend gave it.
\<close>

theorem moveObject_unlink_failure:
  assumes "mkdirp client (dirname (toSafeLocalPath (basePath params) user newFilename)) b
             = (None, b1)"
    and "ln client (toSafeLocalPath (basePath params) user filename)
           (toSafeLocalPath (basePath params) user newFilename) b1 = (None, b2)"
    and "unlink client (toSafeLocalPath (basePath params) user filename) b2 = (Some e, b3)"
  shows "moveObject client params user filename newFilename b =
           \<lparr>callbacks = [Failure e],
            calls = [Mkdirp (dirname (toSafeLocalPath (basePath params) user newFilename)),
                     Ln (toSafeLocalPath (basePath params) user filename)
                        (toSafeLocalPath (basePath params) user newFilename),
                     Unlink (toSafeLocalPath (basePath params) user filename)],
            backend = b3, thrown = None\<rparr>"
  using assms by (simp add: moveObject_def Let_def)

theorem moveObject_unlink_failure_witness:
  "moveObject (mem_client [(Unlink ''base/AB12CD34EF5678/app1/a.txt'', denied)])
     params0 tenantT ''a.txt'' ''d/b.txt'' [''base/AB12CD34EF5678/app1/a.txt'']
   = \<lparr>callbacks = [Failure denied],
      calls = [Mkdirp ''base/AB12CD34EF5678/app1/d'',
               Ln ''base/AB12CD34EF5678/app1/a.txt'' ''base/AB12CD34EF5678/app1/d/b.txt'',
               Unlink ''base/AB12CD34EF5678/app1/a.txt''],
      backend = [''base/AB12CD34EF5678/app1/d/b.txt'', ''base/AB12CD34EF5678/app1/a.txt''],
      thrown = None\<rparr>"
proof -
  let ?c = "mem_client [(Unlink ''base/AB12CD34EF5678/app1/a.txt'', denied)]"
  have m: "mkdirp ?c (dirname (toSafeLocalPath (basePath params0) tenantT ''d/b.txt''))
             [''base/AB12CD34EF5678/app1/a.txt'']
           = (None, [''base/AB12CD34EF5678/app1/a.txt''])"
    by (simp add: tenantT_resolved dirname_destination mem_client_def)
  have l: "ln ?c (toSafeLocalPath (basePath params0) tenantT ''a.txt'')
             (toSafeLocalPath (basePath params0) tenantT ''d/b.txt'')
             [''base/AB12CD34EF5678/app1/a.txt'']
           = (None, [''base/AB12CD34EF5678/app1/d/b.txt'', ''base/AB12CD34EF5678/app1/a.txt''])"
    by (simp add: tenantT_resolved mem_client_def)
  have u: "unlink ?c (toSafeLocalPath (basePath params0) tenantT ''a.txt'')
             [''base/AB12CD34EF5678/app1/d/b.txt'', ''base/AB12CD34EF5678/app1/a.txt'']
           = (Some denied,
              [''base/AB12CD34EF5678/app1/d/b.txt'', ''base/AB12CD34EF5678/app1/a.txt''])"
    by (simp add: tenantT_resolved mem_client_def)
  show ?thesis
    using moveObject_unlink_failure [OF m l u]
    by (simp add: tenantT_resolved dirname_destination)
qed

text \<open>
  C10. If the directory creation succeeds and the link fails, \<open>moveObject\<close> has issued
  the recursive directory creation of the destination's parent and the link, in this
  order, and nothing else: no unlink is issued for any path, the backend is left as the
  failed link left it, and the callback is called once with the link's error.
\<close>

theorem moveObject_link_failure:
  assumes "mkdirp client (dirname (toSafeLocalPath (basePath params) user newFilename)) b
             = (None, b1)"
    and "ln client (toSafeLocalPath (basePath params) user filename)
           (toSafeLocalPath (basePath params) user newFilename) b1 = (Some e, b2)"
  shows "moveObject client params user filename newFilename b =
           \<lparr>callbacks = [Failure e],
            calls = [Mkdirp (dirname (toSafeLocalPath (basePath params) user newFilename)),
                     Ln (toSafeLocalPath (basePath params) user filename)
                        (toSafeLocalPath (basePath params) user newFilename)],
            backend = b2, thrown = None\<rparr>
         \<and> (\<forall>p. Unlink p \<notin> set (calls (moveObject client params user filename newFilename b)))"
  using assms by (simp add: moveObject_def Let_def)

theorem moveObject_link_failure_witness:
  "moveObject
     (mem_client [(Ln ''base/AB12CD34EF5678/app1/a.txt'' ''base/AB12CD34EF5678/app1/d/b.txt'',
                   denied)])
     params0 tenantT ''a.txt'' ''d/b.txt'' [''base/AB12CD34EF5678/app1/a.txt'']
   = \<lparr>callbacks = [Failure denied],
      calls = [Mkdirp ''base/AB12CD34EF5678/app1/d'',
               Ln ''base/AB12CD34EF5678/app1/a.txt'' ''base/AB12CD34EF5678/app1/d/b.txt''],
      backend = [''base/AB12CD34EF5678/app1/a.txt''], thrown = None\<rparr>"
proof -
  let ?c = "mem_client [(Ln ''base/AB12CD34EF5678/app1/a.txt''
                            ''base/AB12CD34EF5678/app1/d/b.txt'', denied)]"
  have m: "mkdirp ?c (dirname (toSafeLocalPath (basePath params0) tenantT ''d/b.txt''))
             [''base/AB12CD34EF5678/app1/a.txt'']
           = (None, [''base/AB12CD34EF5678/app1/a.txt''])"
    by (simp add: tenantT_resolved dirname_destination mem_client_def)
  have l: "ln ?c (toSafeLocalPath (basePath params0) tenantT ''a.txt'')
             (toSafeLocalPath (basePath params0) tenantT ''d/b.txt'')
             [''base/AB12CD34EF5678/app1/a.txt'']
           = (Some denied, [''base/AB12CD34EF5678/app1/a.txt''])"
    by (simp add: tenantT_resolved mem_client_def)
  show ?thesis
    using moveObject_link_failure [OF m l]
    by (simp add: tenantT_resolved dirname_destination)
qed

section \<open>Deleting an object\<close>

text \<open>
  C7. \<open>deleteObject\<close> asks for the info of the resolved path first. If that fails, the
  caller is given its error and no unlink is issued: the only call is the info call and
  the backend is as that call left it. If the info call succeeds and the unlink fails,
  the caller is given the unlink's error. If both succeed, the caller is given an entry
  whose name is the path as the caller wrote it and whose kind is \<open>folder\<close> when the
  info's extension is \<open>directory\<close> and \<open>file\<close> otherwise.
\<close>

theorem deleteObject_results:
  assumes "info client (toSafeLocalPath (basePath params) user filename) b
             = ((err, details), b1)"
    and "unlink client (toSafeLocalPath (basePath params) user filename) b1 = (err2, b2)"
  shows "(\<forall>e. err = Some e \<longrightarrow>
            deleteObject client params user filename b =
              \<lparr>callbacks = [Failure e],
               calls = [Info (toSafeLocalPath (basePath params) user filename)],
               backend = b1, thrown = None\<rparr>)
         \<and> (\<forall>i e. err = None \<and> details = Some i \<and> err2 = Some e \<longrightarrow>
            deleteObject client params user filename b =
              \<lparr>callbacks = [Failure e],
               calls = [Info (toSafeLocalPath (basePath params) user filename),
                        Unlink (toSafeLocalPath (basePath params) user filename)],
               backend = b2, thrown = None\<rparr>)
         \<and> (\<forall>i. err = None \<and> details = Some i \<and> err2 = None \<longrightarrow>
            deleteObject client params user filename b =
              \<lparr>callbacks =
                 [Success \<lparr>entry_name = filename,
                           entry_tag = (if extension i = ''directory'' then ''folder''
                                        else ''file''),
                           entry_size = None\<rparr>],
               calls = [Info (toSafeLocalPath (basePath params) user filename),
                        Unlink (toSafeLocalPath (basePath params) user filename)],
               backend = b2, thrown = None\<rparr>)"
  using assms by (simp add: deleteObject_def getEntryDetails_def Let_def)

theorem deleteObject_results_witness:
  "deleteObject (mem_client []) params0 tenantT ''a.txt'' []
     = \<lparr>callbacks = [Failure not_found],
        calls = [Info ''base/AB12CD34EF5678/app1/a.txt''],
        backend = [], thrown = None\<rparr>
   \<and> deleteObject (mem_client [(Unlink ''base/AB12CD34EF5678/app1/a.txt'', denied)])
       params0 tenantT ''a.txt'' [''base/AB12CD34EF5678/app1/a.txt'']
     = \<lparr>callbacks = [Failure denied],
        calls = [Info ''base/AB12CD34EF5678/app1/a.txt'',
                 Unlink ''base/AB12CD34EF5678/app1/a.txt''],
        backend = [''base/AB12CD34EF5678/app1/a.txt''], thrown = None\<rparr>
   \<and> deleteObject (mem_client []) params0 tenantT ''a.txt''
       [''base/AB12CD34EF5678/app1/a.txt'']
     = \<lparr>callbacks =
          [Success \<lparr>entry_name = ''a.txt'', entry_tag = ''file'', entry_size = None\<rparr>],
        calls = [Info ''base/AB12CD34EF5678/app1/a.txt'',
                 Unlink ''base/AB12CD34EF5678/app1/a.txt''],
        backend = [], thrown = None\<rparr>
   \<and> deleteObject (mem_client []) params0 tenantT ''notes/''
       [''base/AB12CD34EF5678/app1/notes/'']
     = \<lparr>callbacks =
          [Success \<lparr>entry_name = ''notes/'', entry_tag = ''folder'', entry_size = None\<rparr>],
        calls = [Info ''base/AB12CD34EF5678/app1/notes/'',
                 Unlink ''base/AB12CD34EF5678/app1/notes/''],
        backend = [], thrown = None\<rparr>"
proof -
  let ?a = "''base/AB12CD34EF5678/app1/a.txt''"
  let ?n = "''base/AB12CD34EF5678/app1/notes/''"
  let ?f = "mem_client [(Unlink ''base/AB12CD34EF5678/app1/a.txt'', denied)]"
  have i1: "info (mem_client []) (toSafeLocalPath (basePath params0) tenantT ''a.txt'') []
              = ((Some not_found, None), [])"
    and u1: "unlink (mem_client []) (toSafeLocalPath (basePath params0) tenantT ''a.txt'') []
              = (Some not_found, [])"
    by (simp_all add: tenantT_resolved mem_client_def)
  have i2: "info ?f (toSafeLocalPath (basePath params0) tenantT ''a.txt'') [?a]
              = ((None, Some \<lparr>extension = ''bin''\<rparr>), [?a])"
    and u2: "unlink ?f (toSafeLocalPath (basePath params0) tenantT ''a.txt'') [?a]
              = (Some denied, [?a])"
    by (simp_all add: tenantT_resolved mem_client_def)
  have i3: "info (mem_client []) (toSafeLocalPath (basePath params0) tenantT ''a.txt'') [?a]
              = ((None, Some \<lparr>extension = ''bin''\<rparr>), [?a])"
    and u3: "unlink (mem_client []) (toSafeLocalPath (basePath params0) tenantT ''a.txt'') [?a]
              = (None, [])"
    by (simp_all add: tenantT_resolved mem_client_def)
  have i4: "info (mem_client []) (toSafeLocalPath (basePath params0) tenantT ''notes/'') [?n]
              = ((None, Some \<lparr>extension = ''directory''\<rparr>), [?n])"
    and u4: "unlink (mem_client []) (toSafeLocalPath (basePath params0) tenantT ''notes/'') [?n]
              = (None, [])"
    by (simp_all add: tenantT_resolved mem_client_def)
  show ?thesis
    using deleteObject_results [OF i1 u1] deleteObject_results [OF i2 u2]
      deleteObject_results [OF i3 u3] deleteObject_results [OF i4 u4]
    by (simp add: tenantT_resolved)
qed

section \<open>Starting a multipart upload\<close>

text \<open>
  C8. For every tenant, \<open>startMultipartUpload\<close> is the client's \<open>createUpload\<close> run
  on the join of the configured base path and the constant segment \<open>temp0000\<close>, with
  the configured account: the backend is left as that call leaves it, the caller is
  given that call's error or upload id, and this is the one call issued. Neither the
  path nor the outcome depends on the tenant.
\<close>

theorem startMultipartUpload_fixed_path:
  assumes "createUpload client (posix_join [basePath params, ''temp0000''])
             (params_user params) b = ((err, uploadId), b1)"
  shows "startMultipartUpload client params user b =
           \<lparr>callbacks = (case err of Some e \<Rightarrow> [Failure e] | None \<Rightarrow> [Success uploadId]),
            calls = [CreateUpload (posix_join [basePath params, ''temp0000''])
                       (params_user params)],
            backend = b1, thrown = None\<rparr>
         \<and> startMultipartUpload client params user' b
             = startMultipartUpload client params user b"
  using assms by (simp add: startMultipartUpload_def Let_def)

theorem startMultipartUpload_fixed_path_witness:
  "createUpload (mem_client []) (posix_join [basePath params0, ''temp0000''])
     (params_user params0) [] = ((None, Value ''upload-1''), [''base/temp0000''])
   \<and> startMultipartUpload (mem_client []) params0 tenantT []
     = \<lparr>callbacks = [Success (Value ''upload-1'')],
        calls = [CreateUpload ''base/temp0000'' ''operator''],
        backend = [''base/temp0000''], thrown = None\<rparr>
   \<and> startMultipartUpload (mem_client []) params0
       \<lparr>account_id = ''ZZ99'', app_id = ''other''\<rparr> []
     = startMultipartUpload (mem_client []) params0 tenantT []"
proof -
  have j: "posix_join [''base'', ''temp0000''] = ''base/temp0000''"
    by (simp add: posix_join_def posix_normalize_def)
  have c: "createUpload (mem_client []) (posix_join [basePath params0, ''temp0000''])
             (params_user params0) [] = ((None, Value ''upload-1''), [''base/temp0000''])"
    by (simp add: j mem_client_def params0_def)
  show ?thesis
    using c startMultipartUpload_fixed_path
            [OF c, of tenantT "\<lparr>account_id = ''ZZ99'', app_id = ''other''\<rparr>"]
    by (simp add: j params0_def)
qed

end
